theory Spec2Isabelle
  imports Main
begin

section \<open>Data model\<close>

text \<open>
  Modelled from the spec: the declaration of \<open>MediaDeviceInfo\<close> is not part of the
  sources at hand. The spec's Device Descriptor is \<open>{deviceId, kind, label}\<close>; the service
  compares \<open>kind\<close> and \<open>deviceId\<close> with string literals, so both are strings here.
\<close>

record media_device_info =
  deviceId :: string
  kind :: string
  label :: string

text \<open>
  \<open>AgoraConfig\<close> is declared outside the sources at hand; the service reads its
  \<open>AppID\<close> field only.
\<close>

record agora_config =
  AppID :: string

text \<open>
  A property of an object that the service assigns to. Specifications are plain
  objects: the property is either not there, or an own data property with its
  \<open>writable\<close> attribute and its value (\<open>None\<close> is \<open>undefined\<close>). \<open>{}\<close> has
  the property \<open>Absent\<close>, \<open>{p: undefined}\<close> has \<open>Property True None\<close>, and
  \<open>Object.freeze\<close> makes every property there is \<open>Property False v\<close>.
\<close>

datatype 'a property = Absent | Property bool "'a option"

text \<open>
  \<open>StreamSpec\<close>, field by field. \<open>cameraId\<close> and \<open>microphoneId\<close> are the two
  properties \<open>createStream\<close> assigns to. Any other optional field \<open>f?: T\<close> is only
  passed along and is a \<open>T option\<close>, with \<open>None\<close> for a field that is absent or
  \<open>undefined\<close>. \<open>MediaStreamTrack\<close> is declared elsewhere and is the type parameter
  \<open>'t\<close>. A numeric \<open>streamID\<close> is the user ID, an integer; the service never reads it.
\<close>

record audio_processing =
  AEC :: "bool option"
  AGC :: "bool option"
  ANS :: "bool option"

datatype facing_mode = User | Environment

datatype media_source = Screen | Application | Window

datatype stream_id = IdNumber int | IdString string

record 't stream_spec =
  audio :: bool
  audioProcessing :: "audio_processing option"
  audioSource :: "'t option"
  cameraId :: "string property"
  extensionId :: "string option"
  facingMode :: "facing_mode option"
  mediaSource :: "media_source option"
  microphoneId :: "string property"
  mirror :: "bool option"
  screen :: "bool option"
  screenAudio :: "bool option"
  streamID :: "stream_id option"
  video :: bool
  videoSource :: "'t option"

text \<open>
  The service object. \<open>client\<close>, \<open>audioDevices\<close> and \<open>videoDevices\<close> are declared
  without an initialiser, so they are \<open>undefined\<close> (\<open>None\<close>) until assigned. The client
  object is opaque (type \<open>'c\<close>).
\<close>

record 'c ngx_agora_service =
  config :: agora_config
  client :: "'c option"
  audioDevices :: "media_device_info list option"
  videoDevices :: "media_device_info list option"

section \<open>The provider and the world around the service\<close>

text \<open>
  Stream specifications are objects: the caller and the provider hold references to
  them, and the service writes through the reference it is given. The store maps every
  reference to the object it denotes, and tells whether that object is extensible
  (\<open>Object.isExtensible\<close>: false after \<open>Object.preventExtensions\<close>, \<open>Object.seal\<close>
  or \<open>Object.freeze\<close>).
\<close>

type_synonym ref = nat

datatype callback = Callback nat

text \<open>
  Every call the service makes on the provider (\<open>AgoraRTC\<close> and the client object it
  creates) is recorded, oldest first, with the arguments it carries. \<open>ClientConfig\<close> is
  declared elsewhere and is the type parameter \<open>'cc\<close>.
\<close>

datatype ('cc, 'c, 't) provider_call =
    CheckSystemRequirements
  | LoggerError string
  | GetDevices
  | CreateClient 'cc
  | ClientInit 'c string "callback option" "callback option"
  | CreateStream ref "'t stream_spec"

record ('cc, 'c, 't) world =
  specs :: "ref \<Rightarrow> 't stream_spec"
  extensible :: "ref \<Rightarrow> bool"
  calls :: "('cc, 'c, 't) provider_call list"

text \<open>
  What the provider answers: whether the browser is supported, the client object for a
  configuration, and for a stream specification either a stream (\<open>Inr\<close>) or a failure
  it throws (\<open>Inl\<close>).
\<close>

record ('cc, 'c, 't, 'e, 'st) agora_rtc =
  rtc_checkSystemRequirements :: bool
  rtc_createClient :: "'cc \<Rightarrow> 'c"
  rtc_createStream :: "'t stream_spec \<Rightarrow> 'e + 'st"

section \<open>JavaScript primitives the service relies on\<close>

text \<open>\<open>Array.prototype.filter\<close>: the elements the callback accepts, in index order.\<close>

fun Array_filter :: "('a \<Rightarrow> bool) \<Rightarrow> 'a list \<Rightarrow> 'a list" where
  "Array_filter f [] = []"
| "Array_filter f (x # xs) = (if f x then x # Array_filter f xs else Array_filter f xs)"

text \<open>
  Truthiness of an optional string: \<open>undefined\<close> and the empty string are falsy, every
  other string is truthy.
\<close>

fun truthy :: "string option \<Rightarrow> bool" where
  "truthy None = False"
| "truthy (Some s) = (s \<noteq> [])"

text \<open>\<open>a || b\<close> on an optional string and a string.\<close>

fun js_or :: "string option \<Rightarrow> string \<Rightarrow> string" where
  "js_or None b = b"
| "js_or (Some s) b = (if s \<noteq> [] then s else b)"

text \<open>
  \<open>this.xDevices && this.xDevices.length\<close>: truthy when the array is defined and its
  length is not zero (an empty array is itself truthy, its length \<open>0\<close> is not).
\<close>

fun has_devices :: "media_device_info list option \<Rightarrow> bool" where
  "has_devices None = False"
| "has_devices (Some ds) = (length ds \<noteq> 0)"

text \<open>Reading a property, \<open>o.p\<close>: a property that is not there reads as \<open>undefined\<close>.\<close>

fun prop_get :: "'a property \<Rightarrow> 'a option" where
  "prop_get Absent = None"
| "prop_get (Property wr v) = v"

text \<open>
  Whether an assignment \<open>o.p = v\<close> is accepted: a property that is there must be
  writable, one that is not there can only be added to an extensible object.
\<close>

fun accepts :: "bool \<Rightarrow> 'a property \<Rightarrow> bool" where
  "accepts ext Absent = ext"
| "accepts ext (Property wr v) = wr"

datatype js_exception = TypeError

text \<open>
  The assignment \<open>o.p = v\<close> in strict code (a class body is strict): it stores the
  value in a writable property, and throws a \<open>TypeError\<close> where it is not accepted,
  leaving the object as it was.
\<close>

definition prop_set :: "bool \<Rightarrow> 'a property \<Rightarrow> 'a \<Rightarrow> js_exception + 'a property" where
  "prop_set ext p v = (if accepts ext p then Inr (Property True (Some v)) else Inl TypeError)"

section \<open>NgxAgoraService\<close>

subsection \<open>collectDevices\<close>

text \<open>The arrow function handed to \<open>getDevices\<close>, run with the enumerated devices.\<close>

definition collectDevices_callback ::
  "media_device_info list \<Rightarrow> 'c ngx_agora_service \<Rightarrow> 'c ngx_agora_service" where
  "collectDevices_callback devices this =
     (let audioDevices' = Array_filter
            (\<lambda>device. kind device = ''audioinput'' \<and> deviceId device \<noteq> ''default'') devices;
          videoDevices' = Array_filter
            (\<lambda>device. kind device = ''videoinput'' \<and> deviceId device \<noteq> ''default'') devices
      in this\<lparr>audioDevices := Some audioDevices', videoDevices := Some videoDevices'\<rparr>)"

text \<open>
  \<open>collectDevices\<close> itself only hands the callback to the provider; no failure callback
  is supplied, so a failed enumeration never reaches the service.
\<close>

definition collectDevices :: "('cc, 'c, 't) world \<Rightarrow> ('cc, 'c, 't) world" where
  "collectDevices w = w\<lparr>calls := calls w @ [GetDevices]\<rparr>"

subsection \<open>checkSystemRequirements and the constructor\<close>

definition checkSystemRequirements ::
  "('cc, 'c, 't, 'e, 'st) agora_rtc \<Rightarrow> ('cc, 'c, 't) world \<Rightarrow> bool \<times> ('cc, 'c, 't) world" where
  "checkSystemRequirements rtc w =
     (rtc_checkSystemRequirements rtc, w\<lparr>calls := calls w @ [CheckSystemRequirements]\<rparr>)"

definition NgxAgoraService ::
  "('cc, 'c, 't, 'e, 'st) agora_rtc \<Rightarrow> agora_config \<Rightarrow> ('cc, 'c, 't) world
     \<Rightarrow> 'c ngx_agora_service \<times> ('cc, 'c, 't) world" where
  "NgxAgoraService rtc cfg w =
     (let this = \<lparr>config = cfg, client = None, audioDevices = None, videoDevices = None\<rparr>;
          (ok, w1) = checkSystemRequirements rtc w
      in if \<not> ok
         then (this, w1\<lparr>calls := calls w1 @ [LoggerError ''Web RTC is not supported in this browser'']\<rparr>)
         else (this, collectDevices w1))"

subsection \<open>createClient\<close>

definition createClient ::
  "('cc, 'c, 't, 'e, 'st) agora_rtc \<Rightarrow> 'cc \<Rightarrow> 'c ngx_agora_service \<Rightarrow> ('cc, 'c, 't) world
     \<Rightarrow> 'c ngx_agora_service \<times> ('cc, 'c, 't) world" where
  "createClient rtc cc this w =
     (let c = rtc_createClient rtc cc;
          this1 = this\<lparr>client := Some c\<rparr>;
          w1 = w\<lparr>calls := calls w @ [CreateClient cc]\<rparr>
      in (this1, w1\<lparr>calls := calls w1 @ [ClientInit c (AppID (config this1)) None None]\<rparr>))"

subsection \<open>createStream\<close>

text \<open>The conditions of the two \<open>if\<close> statements.\<close>

definition needsDefaultMic :: "'c ngx_agora_service \<Rightarrow> 't stream_spec \<Rightarrow> bool" where
  "needsDefaultMic this spec =
     (\<not> truthy (prop_get (microphoneId spec)) \<and> has_devices (audioDevices this))"

definition needsDefaultCamera :: "'c ngx_agora_service \<Rightarrow> 't stream_spec \<Rightarrow> bool" where
  "needsDefaultCamera this spec =
     (\<not> truthy (prop_get (cameraId spec)) \<and> has_devices (videoDevices this))"

text \<open>
  The two \<open>if\<close> statements of \<open>createStream\<close>, on the object the reference denotes
  (\<open>ext\<close> tells whether it is extensible). Each results in the object after the
  statement, or in the \<open>TypeError\<close> its assignment throws. Under each condition the
  array has an element at index \<open>0\<close>; the last case of each \<open>case\<close> over the array
  is never reached.
\<close>

definition setDefaultMic ::
  "'c ngx_agora_service \<Rightarrow> bool \<Rightarrow> 't stream_spec \<Rightarrow> js_exception + 't stream_spec" where
  "setDefaultMic this ext spec =
     (if needsDefaultMic this spec
      then (case audioDevices this of
              Some (d # ds) \<Rightarrow>
                (let defaultMic = deviceId d
                 in case prop_set ext (microphoneId spec) defaultMic of
                      Inl ex \<Rightarrow> Inl ex
                    | Inr p \<Rightarrow> Inr (spec\<lparr>microphoneId := p\<rparr>))
            | _ \<Rightarrow> Inr spec)
      else Inr spec)"

definition setDefaultCamera ::
  "'c ngx_agora_service \<Rightarrow> bool \<Rightarrow> 't stream_spec \<Rightarrow> js_exception + 't stream_spec" where
  "setDefaultCamera this ext spec =
     (if needsDefaultCamera this spec
      then (case videoDevices this of
              Some (d # ds) \<Rightarrow>
                (let defaultCamera = deviceId d
                 in case prop_set ext (cameraId spec) (js_or (prop_get (cameraId spec)) defaultCamera) of
                      Inl ex \<Rightarrow> Inl ex
                    | Inr p \<Rightarrow> Inr (spec\<lparr>cameraId := p\<rparr>))
            | _ \<Rightarrow> Inr spec)
      else Inr spec)"

text \<open>
  \<open>createStream\<close> writes the defaults into the caller's object, then hands that object
  to the provider. Its outcome is \<open>Inr\<close> of what the provider returns or throws, or
  \<open>Inl\<close> of the \<open>TypeError\<close> one of its own assignments threw; in that case the
  statements after the assignment are not run, and what was written before it stays.
\<close>

definition createStream ::
  "('cc, 'c, 't, 'e, 'st) agora_rtc \<Rightarrow> 'c ngx_agora_service \<Rightarrow> ref \<Rightarrow> ('cc, 'c, 't) world
     \<Rightarrow> (js_exception + ('e + 'st)) \<times> ('cc, 'c, 't) world" where
  "createStream rtc this spec w =
     (case setDefaultMic this (extensible w spec) (specs w spec) of
        Inl ex \<Rightarrow> (Inl ex, w)
      | Inr s1 \<Rightarrow>
          (let w1 = w\<lparr>specs := (specs w)(spec := s1)\<rparr>
           in case setDefaultCamera this (extensible w1 spec) (specs w1 spec) of
                Inl ex \<Rightarrow> (Inl ex, w1)
              | Inr s2 \<Rightarrow>
                  (let w2 = w1\<lparr>specs := (specs w1)(spec := s2)\<rparr>
                   in (Inr (rtc_createStream rtc (specs w2 spec)),
                       w2\<lparr>calls := calls w2 @ [CreateStream spec (specs w2 spec)]\<rparr>))))"

section \<open>The stream factory in the words of the specification\<close>

text \<open>
  "If no microphone device is specified and the audio-input cache is non-empty, set it
  to the first cached entry; symmetrically for camera/video." A device counts as
  specified when its identifier is a non-empty string. These definitions are what the
  theorems about \<open>createStream\<close> compare the code with; the code does not use them.
\<close>

fun spec_first_deviceId :: "media_device_info list option \<Rightarrow> string option" where
  "spec_first_deviceId None = None"
| "spec_first_deviceId (Some []) = None"
| "spec_first_deviceId (Some (d # ds)) = Some (deviceId d)"

definition spec_default :: "string property \<Rightarrow> media_device_info list option \<Rightarrow> string property" where
  "spec_default p cache =
     (case spec_first_deviceId cache of
        None \<Rightarrow> p
      | Some i \<Rightarrow> if truthy (prop_get p) then p else Property True (Some i))"

definition spec_apply_defaults :: "'c ngx_agora_service \<Rightarrow> 't stream_spec \<Rightarrow> 't stream_spec" where
  "spec_apply_defaults this spec =
     spec\<lparr>microphoneId := spec_default (microphoneId spec) (audioDevices this),
          cameraId := spec_default (cameraId spec) (videoDevices this)\<rparr>"

section \<open>Example data\<close>

definition dev_a :: media_device_info where
  "dev_a = \<lparr>deviceId = ''a'', kind = ''audioinput'', label = ''Microphone''\<rparr>"

definition dev_default :: media_device_info where
  "dev_default = \<lparr>deviceId = ''default'', kind = ''audioinput'', label = ''Default''\<rparr>"

definition dev_b :: media_device_info where
  "dev_b = \<lparr>deviceId = ''b'', kind = ''videoinput'', label = ''Camera''\<rparr>"

text \<open>The specification \<open>{audio: true, video: true}\<close>.\<close>

definition spec_av :: "unit stream_spec" where
  "spec_av = \<lparr>audio = True, audioProcessing = None, audioSource = None, cameraId = Absent,
     extensionId = None, facingMode = None, mediaSource = None, microphoneId = Absent,
     mirror = None, screen = None, screenAudio = None, streamID = None, video = True,
     videoSource = None\<rparr>"

text \<open>Both devices named by the caller.\<close>

definition spec_named :: "unit stream_spec" where
  "spec_named = spec_av\<lparr>cameraId := Property True (Some ''c''),
     microphoneId := Property True (Some ''m'')\<rparr>"

text \<open>The microphone set to the empty string, the camera named.\<close>

definition spec_blank_mic :: "unit stream_spec" where
  "spec_blank_mic = spec_av\<lparr>cameraId := Property True (Some ''c''),
     microphoneId := Property True (Some [])\<rparr>"


text \<open>
  A world in which every reference denotes the given specification as an ordinary,
  extensible object, before any call.
\<close>

definition world_of :: "unit stream_spec \<Rightarrow> (unit, nat, unit) world" where
  "world_of spec = \<lparr>specs = (\<lambda>r. spec), extensible = (\<lambda>r. True), calls = []\<rparr>"

text \<open>
  The same with every object frozen: \<open>Object.freeze(spec)\<close> makes the object
  non-extensible and every property it has read-only.
\<close>

fun freeze_property :: "'a property \<Rightarrow> 'a property" where
  "freeze_property Absent = Absent"
| "freeze_property (Property wr v) = Property False v"

definition frozen_world_of :: "unit stream_spec \<Rightarrow> (unit, nat, unit) world" where
  "frozen_world_of spec =
     \<lparr>specs = (\<lambda>r. spec\<lparr>cameraId := freeze_property (cameraId spec),
                          microphoneId := freeze_property (microphoneId spec)\<rparr>),
      extensible = (\<lambda>r. False), calls = []\<rparr>"

definition rtc_ok :: "(unit, nat, unit, string, nat) agora_rtc" where
  "rtc_ok = \<lparr>rtc_checkSystemRequirements = True, rtc_createClient = (\<lambda>cc. 7),
     rtc_createStream = (\<lambda>spec. Inr 1)\<rparr>"

definition rtc_unsupported :: "(unit, nat, unit, string, nat) agora_rtc" where
  "rtc_unsupported = rtc_ok\<lparr>rtc_checkSystemRequirements := False\<rparr>"

definition rtc_failing :: "(unit, nat, unit, string, nat) agora_rtc" where
  "rtc_failing = rtc_ok\<lparr>rtc_createStream := (\<lambda>spec. Inl ''DEVICES_NOT_FOUND'')\<rparr>"

text \<open>
  A provider whose stream constructor looks at the specification: it fails when no
  microphone is given, and otherwise returns a stream named after the two devices.
\<close>

definition rtc_probe :: "(unit, nat, unit, string, string \<times> string option) agora_rtc" where
  "rtc_probe = \<lparr>rtc_checkSystemRequirements = True, rtc_createClient = (\<lambda>cc. 7),
     rtc_createStream = (\<lambda>spec. case prop_get (microphoneId spec) of
         None \<Rightarrow> Inl ''DEVICES_NOT_FOUND''
       | Some m \<Rightarrow> Inr (m, prop_get (cameraId spec)))\<rparr>"

definition svc_fresh :: "nat ngx_agora_service" where
  "svc_fresh = \<lparr>config = \<lparr>AppID = ''app-id''\<rparr>, client = None, audioDevices = None,
     videoDevices = None\<rparr>"

text \<open>The service after the scenario's enumeration; its caches are \<open>[a]\<close> and \<open>[b]\<close>.\<close>

definition svc_ab :: "nat ngx_agora_service" where
  "svc_ab = collectDevices_callback [dev_a, dev_default, dev_b] svc_fresh"

text \<open>The service after an enumeration that found no usable device.\<close>

definition svc_none :: "nat ngx_agora_service" where
  "svc_none = collectDevices_callback [dev_default] svc_fresh"

section \<open>Device partitioning\<close>

lemma Array_filter_eq_filter: "Array_filter f xs = filter f xs"
  by (induction xs) simp_all

text \<open>
  C2. After the enumeration callback has run on a device list, the audio cache is exactly
  the descriptors of kind \<open>audioinput\<close> whose identifier is not \<open>default\<close>, in
  enumeration order, and the video cache exactly those of kind \<open>videoinput\<close> whose
  identifier is not \<open>default\<close>, in enumeration order; on the list \<open>a\<close> (audio),
  \<open>default\<close> (audio), \<open>b\<close> (video) the caches are \<open>[a]\<close> and \<open>[b]\<close>.
\<close>

theorem collectDevices_partition:
  "audioDevices (collectDevices_callback devices this) =
     Some [d \<leftarrow> devices. kind d = ''audioinput'' \<and> deviceId d \<noteq> ''default'']
   \<and> videoDevices (collectDevices_callback devices this) =
     Some [d \<leftarrow> devices. kind d = ''videoinput'' \<and> deviceId d \<noteq> ''default'']
   \<and> audioDevices (collectDevices_callback [dev_a, dev_default, dev_b] this) = Some [dev_a]
   \<and> videoDevices (collectDevices_callback [dev_a, dev_default, dev_b] this) = Some [dev_b]"
  by (simp add: collectDevices_callback_def Array_filter_eq_filter dev_a_def dev_default_def dev_b_def)


lemma audio_of_video_empty:
  "filter (\<lambda>d. kind d = ''audioinput'' \<and> deviceId d \<noteq> ''default'')
     (filter (\<lambda>d. kind d = ''videoinput'' \<and> deviceId d \<noteq> ''default'') xs) = []"
  by (induction xs) simp_all

lemma video_of_audio_empty:
  "filter (\<lambda>d. kind d = ''videoinput'' \<and> deviceId d \<noteq> ''default'')
     (filter (\<lambda>d. kind d = ''audioinput'' \<and> deviceId d \<noteq> ''default'') xs) = []"
  by (induction xs) simp_all

text \<open>
  C8. Partitioning is idempotent: running the enumeration callback a second time on the
  same device list leaves the service as the first run left it, and partitioning the
  output of a partition (the audio subset followed by the video subset) gives back the
  same audio subset and the same video subset.
\<close>

theorem collectDevices_idempotent:
  "collectDevices_callback devices (collectDevices_callback devices this) =
     collectDevices_callback devices this
   \<and> audioDevices (collectDevices_callback
        (the (audioDevices (collectDevices_callback devices this)) @
         the (videoDevices (collectDevices_callback devices this))) this) =
     audioDevices (collectDevices_callback devices this)
   \<and> videoDevices (collectDevices_callback
        (the (audioDevices (collectDevices_callback devices this)) @
         the (videoDevices (collectDevices_callback devices this))) this) =
     videoDevices (collectDevices_callback devices this)"
  by (simp add: collectDevices_callback_def Array_filter_eq_filter
        audio_of_video_empty video_of_audio_empty)

section \<open>Stream construction\<close>

lemma svc_ab_caches: "audioDevices svc_ab = Some [dev_a] \<and> videoDevices svc_ab = Some [dev_b]"
  by (simp add: svc_ab_def collectDevices_callback_def dev_a_def dev_default_def dev_b_def)

lemma svc_none_caches: "audioDevices svc_none = Some [] \<and> videoDevices svc_none = Some []"
  by (simp add: svc_none_def collectDevices_callback_def dev_default_def)

lemma spec_default_specified: "truthy (prop_get p) \<Longrightarrow> spec_default p cache = p"
  by (simp add: spec_default_def split: option.splits)

lemma spec_default_no_devices: "\<not> has_devices cache \<Longrightarrow> spec_default p cache = p"
  by (cases cache rule: spec_first_deviceId.cases) (simp_all add: spec_default_def)

lemma spec_default_first:
  "\<not> truthy (prop_get p) \<Longrightarrow> spec_default p (Some (d # ds)) = Property True (Some (deviceId d))"
  by (simp add: spec_default_def)

lemma setDefaultMic_eq:
  "setDefaultMic this ext spec =
     (if needsDefaultMic this spec \<and> \<not> accepts ext (microphoneId spec) then Inl TypeError
      else Inr (spec\<lparr>microphoneId := spec_default (microphoneId spec) (audioDevices this)\<rparr>))"
proof (cases "needsDefaultMic this spec")
  case False
  then have "spec_default (microphoneId spec) (audioDevices this) = microphoneId spec"
    by (auto simp: needsDefaultMic_def spec_default_specified spec_default_no_devices)
  with False show ?thesis by (simp add: setDefaultMic_def)
next
  case True
  then obtain d ds where c: "audioDevices this = Some (d # ds)"
    by (cases "audioDevices this" rule: spec_first_deviceId.cases) (auto simp: needsDefaultMic_def)
  from True have "\<not> truthy (prop_get (microphoneId spec))"
    by (simp add: needsDefaultMic_def)
  with True c show ?thesis
    by (simp add: setDefaultMic_def prop_set_def spec_default_first)
qed

lemma setDefaultCamera_eq:
  "setDefaultCamera this ext spec =
     (if needsDefaultCamera this spec \<and> \<not> accepts ext (cameraId spec) then Inl TypeError
      else Inr (spec\<lparr>cameraId := spec_default (cameraId spec) (videoDevices this)\<rparr>))"
proof (cases "needsDefaultCamera this spec")
  case False
  then have "spec_default (cameraId spec) (videoDevices this) = cameraId spec"
    by (auto simp: needsDefaultCamera_def spec_default_specified spec_default_no_devices)
  with False show ?thesis by (simp add: setDefaultCamera_def)
next
  case True
  then obtain d ds where c: "videoDevices this = Some (d # ds)"
    by (cases "videoDevices this" rule: spec_first_deviceId.cases) (auto simp: needsDefaultCamera_def)
  from True have f: "\<not> truthy (prop_get (cameraId spec))"
    by (simp add: needsDefaultCamera_def)
  then have "js_or (prop_get (cameraId spec)) b = b" for b
    by (cases "prop_get (cameraId spec)") simp_all
  with True c f show ?thesis
    by (simp add: setDefaultCamera_def prop_set_def spec_default_first)
qed

lemma createStream_refused_mic:
  "needsDefaultMic this (specs w r) \<Longrightarrow> \<not> accepts (extensible w r) (microphoneId (specs w r)) \<Longrightarrow>
     createStream rtc this r w = (Inl TypeError, w)"
  by (simp add: createStream_def setDefaultMic_eq)

lemma createStream_refused_camera:
  "needsDefaultMic this (specs w r) \<longrightarrow> accepts (extensible w r) (microphoneId (specs w r)) \<Longrightarrow>
   needsDefaultCamera this (specs w r) \<Longrightarrow> \<not> accepts (extensible w r) (cameraId (specs w r)) \<Longrightarrow>
     createStream rtc this r w =
       (Inl TypeError,
        w\<lparr>specs := (specs w)(r := (specs w r)
             \<lparr>microphoneId := spec_default (microphoneId (specs w r)) (audioDevices this)\<rparr>)\<rparr>)"
  by (auto simp: createStream_def Let_def setDefaultMic_eq setDefaultCamera_eq needsDefaultCamera_def)

lemma createStream_accepted:
  "needsDefaultMic this (specs w r) \<longrightarrow> accepts (extensible w r) (microphoneId (specs w r)) \<Longrightarrow>
   needsDefaultCamera this (specs w r) \<longrightarrow> accepts (extensible w r) (cameraId (specs w r)) \<Longrightarrow>
     createStream rtc this r w =
       (Inr (rtc_createStream rtc (spec_apply_defaults this (specs w r))),
        w\<lparr>specs := (specs w)(r := spec_apply_defaults this (specs w r)),
          calls := calls w @ [CreateStream r (spec_apply_defaults this (specs w r))]\<rparr>)"
  by (auto simp: createStream_def Let_def setDefaultMic_eq setDefaultCamera_eq needsDefaultCamera_def
        spec_apply_defaults_def)

lemma spec_apply_defaults_none:
  "\<not> needsDefaultMic this spec \<Longrightarrow> \<not> needsDefaultCamera this spec \<Longrightarrow>
     spec_apply_defaults this spec = spec"
  by (auto simp: spec_apply_defaults_def needsDefaultMic_def needsDefaultCamera_def
        spec_default_specified spec_default_no_devices)

lemma createStream_unneeded:
  "\<not> needsDefaultMic this (specs w r) \<Longrightarrow> \<not> needsDefaultCamera this (specs w r) \<Longrightarrow>
     createStream rtc this r w =
       (Inr (rtc_createStream rtc (specs w r)), w\<lparr>calls := calls w @ [CreateStream r (specs w r)]\<rparr>)"
  by (simp add: createStream_accepted spec_apply_defaults_none)

lemma has_devices_none: "cache = None \<or> cache = Some [] \<Longrightarrow> \<not> has_devices cache"
  by auto

text \<open>
  C3. When each device cache is unset or empty, \<open>createStream\<close> hands the provider the
  caller's specification with every field as it was, leaves the object itself as it was,
  and its outcome is the provider's outcome for that specification: the service adds no
  error of its own.
\<close>

theorem createStream_no_devices:
  assumes "audioDevices this = None \<or> audioDevices this = Some []"
    and "videoDevices this = None \<or> videoDevices this = Some []"
  shows "createStream rtc this r w =
           (Inr (rtc_createStream rtc (specs w r)), w\<lparr>calls := calls w @ [CreateStream r (specs w r)]\<rparr>)"
proof -
  have n: "\<not> needsDefaultMic this (specs w r)" "\<not> needsDefaultCamera this (specs w r)"
    using assms by (simp_all add: needsDefaultMic_def needsDefaultCamera_def has_devices_none)
  then show ?thesis
    by (rule createStream_unneeded)
qed

theorem createStream_no_devices_witness:
  "(audioDevices svc_fresh = None \<or> audioDevices svc_fresh = Some [])
   \<and> (videoDevices svc_fresh = None \<or> videoDevices svc_fresh = Some [])
   \<and> createStream rtc_ok svc_fresh 0 (world_of spec_av) =
       (Inr (Inr 1), (world_of spec_av)\<lparr>calls := [CreateStream 0 spec_av]\<rparr>)
   \<and> (audioDevices svc_none = None \<or> audioDevices svc_none = Some [])
   \<and> (videoDevices svc_none = None \<or> videoDevices svc_none = Some [])
   \<and> createStream rtc_failing svc_none 0 (world_of spec_av) =
       (Inr (Inl ''DEVICES_NOT_FOUND''), (world_of spec_av)\<lparr>calls := [CreateStream 0 spec_av]\<rparr>)
   \<and> createStream rtc_ok svc_none 0 (frozen_world_of spec_av) =
       (Inr (Inr 1), (frozen_world_of spec_av)\<lparr>calls := [CreateStream 0 spec_av]\<rparr>)"
proof -
  have fresh: "audioDevices svc_fresh = None \<or> audioDevices svc_fresh = Some []"
    "videoDevices svc_fresh = None \<or> videoDevices svc_fresh = Some []"
    by (simp_all add: svc_fresh_def)
  have none: "audioDevices svc_none = None \<or> audioDevices svc_none = Some []"
    "videoDevices svc_none = None \<or> videoDevices svc_none = Some []"
    by (simp_all add: svc_none_caches)
  show ?thesis
    using fresh none
      createStream_no_devices [OF fresh, of rtc_ok 0 "world_of spec_av"]
      createStream_no_devices [OF none, of rtc_failing 0 "world_of spec_av"]
      createStream_no_devices [OF none, of rtc_ok 0 "frozen_world_of spec_av"]
    by (simp add: world_of_def frozen_world_of_def spec_av_def rtc_ok_def rtc_failing_def)
qed







lemma needsDefaultMic_ab: "needsDefaultMic svc_ab spec_av \<and> needsDefaultCamera svc_ab spec_av"
  by (simp add: needsDefaultMic_def needsDefaultCamera_def svc_ab_caches spec_av_def)

lemma spec_apply_defaults_ab:
  "spec_apply_defaults svc_ab spec_av =
     spec_av\<lparr>microphoneId := Property True (Some ''a''), cameraId := Property True (Some ''b'')\<rparr>"
  by (simp add: spec_apply_defaults_def spec_default_def svc_ab_caches spec_av_def dev_a_def dev_b_def)

lemma frozen_spec_av: "specs (frozen_world_of spec_av) r = spec_av \<and> \<not> extensible (frozen_world_of spec_av) r"
  by (simp add: frozen_world_of_def spec_av_def)

lemma spec_av_ids: "microphoneId spec_av = Absent \<and> cameraId spec_av = Absent"
  by (simp add: spec_av_def)

lemma createStream_frozen_av:
  "createStream rtc svc_ab r (frozen_world_of spec_av) = (Inl TypeError, frozen_world_of spec_av)"
  using createStream_refused_mic [of svc_ab "frozen_world_of spec_av" r rtc]
  by (simp add: needsDefaultMic_ab frozen_spec_av spec_av_ids)

text \<open>
  C6, as the source has it: whenever the caller's object accepts every default
  \<open>createStream\<close> has to write (always so when none is needed), \<open>createStream\<close>
  makes one call to the provider's stream constructor, with the specification filled as
  the specification says, and its outcome is what that call returns or throws, unchanged.
  When the object refuses a write, \<open>createStream\<close> throws a \<open>TypeError\<close> of its own
  and the provider is not called.
\<close>

theorem createStream_result:
  "((needsDefaultMic this (specs w r) \<longrightarrow> accepts (extensible w r) (microphoneId (specs w r)))
      \<and> (needsDefaultCamera this (specs w r) \<longrightarrow> accepts (extensible w r) (cameraId (specs w r)))
     \<longrightarrow> fst (createStream rtc this r w) =
           Inr (rtc_createStream rtc (spec_apply_defaults this (specs w r)))
         \<and> calls (snd (createStream rtc this r w)) =
           calls w @ [CreateStream r (spec_apply_defaults this (specs w r))])
   \<and> ((needsDefaultMic this (specs w r) \<and> \<not> accepts (extensible w r) (microphoneId (specs w r)))
      \<or> (needsDefaultCamera this (specs w r) \<and> \<not> accepts (extensible w r) (cameraId (specs w r)))
     \<longrightarrow> fst (createStream rtc this r w) = Inl TypeError
         \<and> calls (snd (createStream rtc this r w)) = calls w)"
proof -
  consider
      (mic) "needsDefaultMic this (specs w r)" "\<not> accepts (extensible w r) (microphoneId (specs w r))"
    | (cam) "needsDefaultMic this (specs w r) \<longrightarrow> accepts (extensible w r) (microphoneId (specs w r))"
        "needsDefaultCamera this (specs w r)" "\<not> accepts (extensible w r) (cameraId (specs w r))"
    | (ok) "needsDefaultMic this (specs w r) \<longrightarrow> accepts (extensible w r) (microphoneId (specs w r))"
        "needsDefaultCamera this (specs w r) \<longrightarrow> accepts (extensible w r) (cameraId (specs w r))"
    by blast
  then show ?thesis
  proof cases
    case mic
    then show ?thesis by (simp add: createStream_refused_mic)
  next
    case cam
    then show ?thesis by (simp add: createStream_refused_camera)
  next
    case ok
    then show ?thesis by (simp add: createStream_accepted)
  qed
qed

text \<open>
  With a provider that looks at the specification: the defaults \<open>a\<close> and \<open>b\<close> reach
  it; its failure for a specification without microphone comes back as it is; and on a
  frozen object that needs a default it is not called.
\<close>

theorem createStream_result_witness:
  "needsDefaultMic svc_ab (specs (world_of spec_av) 0)
   \<and> accepts (extensible (world_of spec_av) 0) (microphoneId (specs (world_of spec_av) 0))
   \<and> needsDefaultCamera svc_ab (specs (world_of spec_av) 0)
   \<and> accepts (extensible (world_of spec_av) 0) (cameraId (specs (world_of spec_av) 0))
   \<and> fst (createStream rtc_probe svc_ab 0 (world_of spec_av)) = Inr (Inr (''a'', Some ''b''))
   \<and> calls (snd (createStream rtc_probe svc_ab 0 (world_of spec_av))) =
       [CreateStream 0 (spec_av\<lparr>microphoneId := Property True (Some ''a''),
                               cameraId := Property True (Some ''b'')\<rparr>)]
   \<and> \<not> needsDefaultMic svc_fresh (specs (world_of spec_av) 0)
   \<and> \<not> needsDefaultCamera svc_fresh (specs (world_of spec_av) 0)
   \<and> fst (createStream rtc_probe svc_fresh 0 (world_of spec_av)) = Inr (Inl ''DEVICES_NOT_FOUND'')
   \<and> calls (snd (createStream rtc_probe svc_fresh 0 (world_of spec_av))) = [CreateStream 0 spec_av]
   \<and> needsDefaultMic svc_ab (specs (frozen_world_of spec_av) 0)
   \<and> \<not> accepts (extensible (frozen_world_of spec_av) 0) (microphoneId (specs (frozen_world_of spec_av) 0))
   \<and> fst (createStream rtc_probe svc_ab 0 (frozen_world_of spec_av)) = Inl TypeError
   \<and> calls (snd (createStream rtc_probe svc_ab 0 (frozen_world_of spec_av))) = []"
proof -
  have w: "specs (world_of spec_av) 0 = spec_av" "extensible (world_of spec_av) 0"
    "calls (world_of spec_av) = []" "calls (frozen_world_of spec_av) = []"
    by (simp_all add: world_of_def frozen_world_of_def)
  have av: "microphoneId spec_av = Absent" "cameraId spec_av = Absent"
    by (simp_all add: spec_av_def)
  have fresh: "\<not> needsDefaultMic svc_fresh spec_av" "\<not> needsDefaultCamera svc_fresh spec_av"
    by (simp_all add: needsDefaultMic_def needsDefaultCamera_def svc_fresh_def)
  have probe: "rtc_createStream rtc_probe
        (spec_av\<lparr>microphoneId := Property True (Some ''a''), cameraId := Property True (Some ''b'')\<rparr>) =
        Inr (''a'', Some ''b'')"
    "rtc_createStream rtc_probe spec_av = Inl ''DEVICES_NOT_FOUND''"
    by (simp_all add: rtc_probe_def spec_av_def)
  show ?thesis
    using createStream_result [of svc_ab "world_of spec_av" 0 rtc_probe]
      createStream_result [of svc_fresh "world_of spec_av" 0 rtc_probe]
      createStream_result [of svc_ab "frozen_world_of spec_av" 0 rtc_probe]
    by (simp add: w av fresh probe needsDefaultMic_ab spec_apply_defaults_ab frozen_spec_av
          spec_apply_defaults_none createStream_frozen_av)
qed

text \<open>
  C6 as stated fails on a frozen specification that leaves the microphone to the
  service: the provider would return a stream for the default-filled specification, but
  the outcome is the service's own \<open>TypeError\<close> and the provider has not been called.
\<close>

theorem createStream_result_counterexample:
  "rtc_createStream rtc_probe (spec_apply_defaults svc_ab (specs (frozen_world_of spec_av) 0)) =
     Inr (''a'', Some ''b'')
   \<and> audioDevices svc_ab = Some [dev_a]
   \<and> fst (createStream rtc_probe svc_ab 0 (frozen_world_of spec_av)) = Inl TypeError
   \<and> calls (snd (createStream rtc_probe svc_ab 0 (frozen_world_of spec_av))) = []"
proof -
  have "rtc_createStream rtc_probe (spec_apply_defaults svc_ab spec_av) = Inr (''a'', Some ''b'')"
    by (simp add: spec_apply_defaults_ab rtc_probe_def)
  moreover have "calls (frozen_world_of spec_av) = []"
    by (simp add: frozen_world_of_def)
  ultimately show ?thesis
    by (simp add: createStream_frozen_av frozen_spec_av svc_ab_caches)
qed

text \<open>
  C1, as the source has it: whenever the caller's object accepts every default
  \<open>createStream\<close> has to write, \<open>createStream\<close> makes one call to the provider's
  stream constructor. The specification in that call has the first cached audio input's
  deviceId as its microphoneId whenever the caller's microphoneId was unset or the empty
  string and the audio cache is non-empty, and the first cached video input's deviceId as
  its cameraId whenever the caller's cameraId was unset or the empty string and the video
  cache is non-empty; a microphoneId or cameraId the caller set to a non-empty string is
  passed on as it is. When the object refuses a write, \<open>createStream\<close> throws a
  \<open>TypeError\<close> and makes no call.
\<close>

theorem createStream_defaults:
  "((needsDefaultMic this (specs w r) \<longrightarrow> accepts (extensible w r) (microphoneId (specs w r)))
      \<and> (needsDefaultCamera this (specs w r) \<longrightarrow> accepts (extensible w r) (cameraId (specs w r)))
     \<longrightarrow> calls (snd (createStream rtc this r w)) =
           calls w @ [CreateStream r (spec_apply_defaults this (specs w r))])
   \<and> (\<not> truthy (prop_get (microphoneId (specs w r))) \<and> audioDevices this = Some (d # ds) \<longrightarrow>
        prop_get (microphoneId (spec_apply_defaults this (specs w r))) = Some (deviceId d))
   \<and> (\<not> truthy (prop_get (cameraId (specs w r))) \<and> videoDevices this = Some (e # es) \<longrightarrow>
        prop_get (cameraId (spec_apply_defaults this (specs w r))) = Some (deviceId e))
   \<and> (truthy (prop_get (microphoneId (specs w r))) \<longrightarrow>
        microphoneId (spec_apply_defaults this (specs w r)) = microphoneId (specs w r))
   \<and> (truthy (prop_get (cameraId (specs w r))) \<longrightarrow>
        cameraId (spec_apply_defaults this (specs w r)) = cameraId (specs w r))
   \<and> ((needsDefaultMic this (specs w r) \<and> \<not> accepts (extensible w r) (microphoneId (specs w r)))
      \<or> (needsDefaultCamera this (specs w r) \<and> \<not> accepts (extensible w r) (cameraId (specs w r)))
     \<longrightarrow> fst (createStream rtc this r w) = Inl TypeError
         \<and> calls (snd (createStream rtc this r w)) = calls w)"
proof -
  have call: "calls (snd (createStream rtc this r w)) =
      calls w @ [CreateStream r (spec_apply_defaults this (specs w r))]"
    if "needsDefaultMic this (specs w r) \<longrightarrow> accepts (extensible w r) (microphoneId (specs w r))"
      and "needsDefaultCamera this (specs w r) \<longrightarrow> accepts (extensible w r) (cameraId (specs w r))"
    using that by (simp add: createStream_accepted)
  have refused: "fst (createStream rtc this r w) = Inl TypeError
      \<and> calls (snd (createStream rtc this r w)) = calls w"
    if "(needsDefaultMic this (specs w r) \<and> \<not> accepts (extensible w r) (microphoneId (specs w r)))
      \<or> (needsDefaultCamera this (specs w r) \<and> \<not> accepts (extensible w r) (cameraId (specs w r)))"
  proof (cases "needsDefaultMic this (specs w r) \<and> \<not> accepts (extensible w r) (microphoneId (specs w r))")
    case True
    then show ?thesis by (simp add: createStream_refused_mic)
  next
    case False
    with that show ?thesis by (auto simp: createStream_refused_camera)
  qed
  have fields: "(\<not> truthy (prop_get (microphoneId (specs w r))) \<and> audioDevices this = Some (d # ds) \<longrightarrow>
        prop_get (microphoneId (spec_apply_defaults this (specs w r))) = Some (deviceId d))
   \<and> (\<not> truthy (prop_get (cameraId (specs w r))) \<and> videoDevices this = Some (e # es) \<longrightarrow>
        prop_get (cameraId (spec_apply_defaults this (specs w r))) = Some (deviceId e))
   \<and> (truthy (prop_get (microphoneId (specs w r))) \<longrightarrow>
        microphoneId (spec_apply_defaults this (specs w r)) = microphoneId (specs w r))
   \<and> (truthy (prop_get (cameraId (specs w r))) \<longrightarrow>
        cameraId (spec_apply_defaults this (specs w r)) = cameraId (specs w r))"
    by (simp add: spec_apply_defaults_def spec_default_first spec_default_specified)
  from call refused fields show ?thesis by blast
qed

text \<open>
  The scenario of the spec, a caller who named both devices, and a frozen object:
  \<open>{audio: true, video: true}\<close> reaches the provider with microphoneId \<open>a\<close> and
  cameraId \<open>b\<close>; the named devices \<open>m\<close> and \<open>c\<close> reach it as they are; frozen,
  \<open>{audio: true, video: true}\<close> does not reach it.
\<close>

theorem createStream_defaults_witness:
  "needsDefaultMic svc_ab (specs (world_of spec_av) 0)
   \<and> accepts (extensible (world_of spec_av) 0) (microphoneId (specs (world_of spec_av) 0))
   \<and> needsDefaultCamera svc_ab (specs (world_of spec_av) 0)
   \<and> accepts (extensible (world_of spec_av) 0) (cameraId (specs (world_of spec_av) 0))
   \<and> \<not> truthy (prop_get (microphoneId (specs (world_of spec_av) 0)))
   \<and> audioDevices svc_ab = Some (dev_a # [])
   \<and> \<not> truthy (prop_get (cameraId (specs (world_of spec_av) 0)))
   \<and> videoDevices svc_ab = Some (dev_b # [])
   \<and> calls (snd (createStream rtc_ok svc_ab 0 (world_of spec_av))) =
       [CreateStream 0 (spec_av\<lparr>microphoneId := Property True (Some ''a''),
                               cameraId := Property True (Some ''b'')\<rparr>)]
   \<and> truthy (prop_get (microphoneId (specs (world_of spec_named) 0)))
   \<and> truthy (prop_get (cameraId (specs (world_of spec_named) 0)))
   \<and> calls (snd (createStream rtc_ok svc_ab 0 (world_of spec_named))) =
       [CreateStream 0 spec_named]
   \<and> needsDefaultMic svc_ab (specs (frozen_world_of spec_av) 0)
   \<and> \<not> accepts (extensible (frozen_world_of spec_av) 0) (microphoneId (specs (frozen_world_of spec_av) 0))
   \<and> fst (createStream rtc_ok svc_ab 0 (frozen_world_of spec_av)) = Inl TypeError
   \<and> calls (snd (createStream rtc_ok svc_ab 0 (frozen_world_of spec_av))) = []"
proof -
  have w: "specs (world_of spec_av) 0 = spec_av" "extensible (world_of spec_av) 0"
    "calls (world_of spec_av) = []" "calls (frozen_world_of spec_av) = []"
    "specs (world_of spec_named) 0 = spec_named" "calls (world_of spec_named) = []"
    by (simp_all add: world_of_def frozen_world_of_def)
  have av: "microphoneId spec_av = Absent" "cameraId spec_av = Absent"
    by (simp_all add: spec_av_def)
  have named: "truthy (prop_get (microphoneId spec_named))" "truthy (prop_get (cameraId spec_named))"
    by (simp_all add: spec_named_def)
  then have unneeded: "\<not> needsDefaultMic svc_ab spec_named" "\<not> needsDefaultCamera svc_ab spec_named"
    by (simp_all add: needsDefaultMic_def needsDefaultCamera_def)
  show ?thesis
    using createStream_defaults [of svc_ab "world_of spec_av" 0 rtc_ok dev_a "[]" dev_b "[]"]
      createStream_defaults [of svc_ab "world_of spec_named" 0 rtc_ok dev_a "[]" dev_b "[]"]
      createStream_defaults [of svc_ab "frozen_world_of spec_av" 0 rtc_ok dev_a "[]" dev_b "[]"]
    by (simp add: w av named unneeded needsDefaultMic_ab spec_apply_defaults_ab frozen_spec_av
          spec_apply_defaults_none svc_ab_caches createStream_frozen_av)
qed

text \<open>
  C1 as stated fails where the caller set the microphone field to the empty string: the
  field is set, and the provider is handed the cached deviceId \<open>a\<close> in its place. It
  also fails on a frozen \<open>{audio: true, video: true}\<close>: the microphone is unset and the
  audio cache is \<open>[a]\<close>, and no specification is handed to the provider at all.
\<close>

theorem createStream_defaults_counterexample:
  "microphoneId (specs (world_of spec_blank_mic) 0) = Property True (Some '''')
   \<and> audioDevices svc_ab = Some [dev_a]
   \<and> calls (snd (createStream rtc_ok svc_ab 0 (world_of spec_blank_mic))) =
       [CreateStream 0 (spec_blank_mic\<lparr>microphoneId := Property True (Some ''a'')\<rparr>)]
   \<and> microphoneId (specs (frozen_world_of spec_av) 0) = Absent
   \<and> createStream rtc_ok svc_ab 0 (frozen_world_of spec_av) = (Inl TypeError, frozen_world_of spec_av)"
proof -
  have blank: "needsDefaultMic svc_ab spec_blank_mic" "\<not> needsDefaultCamera svc_ab spec_blank_mic"
    by (simp_all add: needsDefaultMic_def needsDefaultCamera_def svc_ab_caches spec_blank_mic_def)
  have filled: "spec_apply_defaults svc_ab spec_blank_mic =
      spec_blank_mic\<lparr>microphoneId := Property True (Some ''a'')\<rparr>"
    by (simp add: spec_apply_defaults_def spec_default_def svc_ab_caches spec_blank_mic_def
          spec_av_def dev_a_def dev_b_def)
  have "createStream rtc_ok svc_ab 0 (world_of spec_blank_mic) =
      (Inr (rtc_createStream rtc_ok (spec_apply_defaults svc_ab spec_blank_mic)),
       (world_of spec_blank_mic)\<lparr>specs := (specs (world_of spec_blank_mic))
           (0 := spec_apply_defaults svc_ab spec_blank_mic),
         calls := [CreateStream 0 (spec_apply_defaults svc_ab spec_blank_mic)]\<rparr>)"
    using blank createStream_accepted [of svc_ab "world_of spec_blank_mic" 0 rtc_ok]
    by (simp add: world_of_def spec_blank_mic_def)
  then have "calls (snd (createStream rtc_ok svc_ab 0 (world_of spec_blank_mic))) =
      [CreateStream 0 (spec_blank_mic\<lparr>microphoneId := Property True (Some ''a'')\<rparr>)]"
    by (simp add: filled)
  moreover have "microphoneId (specs (world_of spec_blank_mic) 0) = Property True (Some '''')"
    by (simp add: world_of_def spec_blank_mic_def)
  ultimately show ?thesis
    by (simp add: svc_ab_caches frozen_spec_av spec_av_ids createStream_frozen_av)
qed




lemma createStream_specified:
  "truthy (prop_get (microphoneId (specs w r))) \<Longrightarrow> truthy (prop_get (cameraId (specs w r))) \<Longrightarrow>
     createStream rtc this r w =
       (Inr (rtc_createStream rtc (specs w r)), w\<lparr>calls := calls w @ [CreateStream r (specs w r)]\<rparr>)"
  by (simp add: createStream_unneeded needsDefaultMic_def needsDefaultCamera_def)

text \<open>
  C7, as the source has it: for a specification whose microphoneId and cameraId are both
  non-empty strings, two calls of \<open>createStream\<close> with that input, be the second given
  the same object or another object with the same fields, hand the provider the same
  specification both times, the input itself, whatever the device caches hold at either
  call and whatever the provider answers.
\<close>

theorem createStream_twice:
  assumes "truthy (prop_get (microphoneId (specs w r)))"
    and "truthy (prop_get (cameraId (specs w r)))"
    and "specs w r' = specs w r"
  shows "createStream rtc1 this1 r w =
           (Inr (rtc_createStream rtc1 (specs w r)), w\<lparr>calls := calls w @ [CreateStream r (specs w r)]\<rparr>)
         \<and> createStream rtc2 this2 r' (snd (createStream rtc1 this1 r w)) =
           (Inr (rtc_createStream rtc2 (specs w r)),
            w\<lparr>calls := calls w @ [CreateStream r (specs w r), CreateStream r' (specs w r)]\<rparr>)"
proof -
  have first: "createStream rtc1 this1 r w =
      (Inr (rtc_createStream rtc1 (specs w r)), w\<lparr>calls := calls w @ [CreateStream r (specs w r)]\<rparr>)"
    using assms(1,2) by (rule createStream_specified)
  let ?w1 = "w\<lparr>calls := calls w @ [CreateStream r (specs w r)]\<rparr>"
  have same: "specs ?w1 r' = specs w r"
    using assms(3) by simp
  have "createStream rtc2 this2 r' ?w1 =
      (Inr (rtc_createStream rtc2 (specs ?w1 r')), ?w1\<lparr>calls := calls ?w1 @ [CreateStream r' (specs ?w1 r')]\<rparr>)"
    using assms(1,2) by (intro createStream_specified) (simp_all only: same)
  with first same show ?thesis by simp
qed

theorem createStream_twice_witness:
  "truthy (prop_get (microphoneId (specs (world_of spec_named) 0)))
   \<and> truthy (prop_get (cameraId (specs (world_of spec_named) 0)))
   \<and> specs (world_of spec_named) 0 = specs (world_of spec_named) 0
   \<and> specs (world_of spec_named) 1 = specs (world_of spec_named) 0
   \<and> calls (snd (createStream rtc_failing svc_ab 0 (snd (createStream rtc_ok svc_fresh 0 (world_of spec_named))))) =
       [CreateStream 0 spec_named, CreateStream 0 spec_named]
   \<and> calls (snd (createStream rtc_failing svc_ab 1 (snd (createStream rtc_ok svc_fresh 0 (world_of spec_named))))) =
       [CreateStream 0 spec_named, CreateStream 1 spec_named]
   \<and> calls (snd (createStream rtc_ok svc_ab 0 (snd (createStream rtc_ok svc_ab 0 (frozen_world_of spec_named))))) =
       [CreateStream 0 (specs (frozen_world_of spec_named) 0),
        CreateStream 0 (specs (frozen_world_of spec_named) 0)]"
proof -
  have named: "truthy (prop_get (microphoneId (specs (world_of spec_named) 0)))"
    "truthy (prop_get (cameraId (specs (world_of spec_named) 0)))"
    by (simp_all add: world_of_def spec_named_def)
  have frozen: "truthy (prop_get (microphoneId (specs (frozen_world_of spec_named) 0)))"
    "truthy (prop_get (cameraId (specs (frozen_world_of spec_named) 0)))"
    by (simp_all add: frozen_world_of_def spec_named_def)
  have same: "specs (world_of spec_named) 0 = specs (world_of spec_named) 0"
    "specs (world_of spec_named) 1 = specs (world_of spec_named) 0"
    by (simp_all add: world_of_def)
  have w: "specs (world_of spec_named) r = spec_named" "calls (world_of spec) = []"
    "calls (frozen_world_of spec) = []" for r spec
    by (simp_all add: world_of_def frozen_world_of_def)
  have a: "calls (snd (createStream rtc_failing svc_ab 0
        (snd (createStream rtc_ok svc_fresh 0 (world_of spec_named))))) =
      [CreateStream 0 spec_named, CreateStream 0 spec_named]"
    by (simp add: createStream_twice [OF named same(1), THEN conjunct2] w)
  have b: "calls (snd (createStream rtc_failing svc_ab 1
        (snd (createStream rtc_ok svc_fresh 0 (world_of spec_named))))) =
      [CreateStream 0 spec_named, CreateStream 1 spec_named]"
    using createStream_twice [OF named same(2), THEN conjunct2, of rtc_failing svc_ab rtc_ok svc_fresh]
    by (simp add: w)
  have c: "calls (snd (createStream rtc_ok svc_ab 0
        (snd (createStream rtc_ok svc_ab 0 (frozen_world_of spec_named))))) =
      [CreateStream 0 (specs (frozen_world_of spec_named) 0),
       CreateStream 0 (specs (frozen_world_of spec_named) 0)]"
    by (simp add: createStream_twice [OF frozen refl, THEN conjunct2] w)
  from named same a b c show ?thesis by simp
qed

text \<open>
  C7 as stated fails for a specification with both fields set, the microphone to the
  empty string: called before the device enumeration has come in and again after it,
  \<open>createStream\<close> hands the provider the empty microphoneId the first time and the
  cached \<open>a\<close> the second time.
\<close>

theorem createStream_twice_counterexample:
  "prop_get (microphoneId (specs (world_of spec_blank_mic) 0)) = Some ''''
   \<and> prop_get (cameraId (specs (world_of spec_blank_mic) 0)) = Some ''c''
   \<and> svc_ab = collectDevices_callback [dev_a, dev_default, dev_b] svc_fresh
   \<and> calls (snd (createStream rtc_ok svc_ab 0 (snd (createStream rtc_ok svc_fresh 0 (world_of spec_blank_mic))))) =
       [CreateStream 0 spec_blank_mic,
        CreateStream 0 (spec_blank_mic\<lparr>microphoneId := Property True (Some ''a'')\<rparr>)]"
proof -
  have fresh: "\<not> needsDefaultMic svc_fresh spec_blank_mic" "\<not> needsDefaultCamera svc_fresh spec_blank_mic"
    by (simp_all add: needsDefaultMic_def needsDefaultCamera_def svc_fresh_def)
  have first: "createStream rtc_ok svc_fresh 0 (world_of spec_blank_mic) =
      (Inr (rtc_createStream rtc_ok spec_blank_mic),
       (world_of spec_blank_mic)\<lparr>calls := [CreateStream 0 spec_blank_mic]\<rparr>)"
    using fresh createStream_unneeded [of svc_fresh "world_of spec_blank_mic" 0 rtc_ok]
    by (simp add: world_of_def)
  let ?w1 = "(world_of spec_blank_mic)\<lparr>calls := [CreateStream 0 spec_blank_mic]\<rparr>"
  have ab: "needsDefaultMic svc_ab spec_blank_mic" "\<not> needsDefaultCamera svc_ab spec_blank_mic"
    by (simp_all add: needsDefaultMic_def needsDefaultCamera_def svc_ab_caches spec_blank_mic_def)
  have filled: "spec_apply_defaults svc_ab spec_blank_mic =
      spec_blank_mic\<lparr>microphoneId := Property True (Some ''a'')\<rparr>"
    by (simp add: spec_apply_defaults_def spec_default_def svc_ab_caches spec_blank_mic_def
          spec_av_def dev_a_def dev_b_def)
  have mic: "accepts True (microphoneId spec_blank_mic)"
    by (simp add: spec_blank_mic_def)
  have "createStream rtc_ok svc_ab 0 ?w1 =
      (Inr (rtc_createStream rtc_ok (spec_apply_defaults svc_ab (specs ?w1 0))),
       ?w1\<lparr>specs := (specs ?w1)(0 := spec_apply_defaults svc_ab (specs ?w1 0)),
         calls := calls ?w1 @ [CreateStream 0 (spec_apply_defaults svc_ab (specs ?w1 0))]\<rparr>)"
    by (rule createStream_accepted) (simp_all add: world_of_def ab mic)
  then have "calls (snd (createStream rtc_ok svc_ab 0 ?w1)) =
      [CreateStream 0 spec_blank_mic, CreateStream 0 (spec_blank_mic\<lparr>microphoneId := Property True (Some ''a'')\<rparr>)]"
    by (simp add: world_of_def filled)
  moreover have "prop_get (microphoneId (specs (world_of spec_blank_mic) 0)) = Some ''''"
    "prop_get (cameraId (specs (world_of spec_blank_mic) 0)) = Some ''c''"
    by (simp_all add: world_of_def spec_blank_mic_def)
  ultimately show ?thesis
    by (simp add: first svc_ab_def)
qed

section \<open>Construction and the client\<close>

lemma NgxAgoraService_supported:
  "rtc_checkSystemRequirements rtc \<Longrightarrow>
     NgxAgoraService rtc cfg w =
       (\<lparr>config = cfg, client = None, audioDevices = None, videoDevices = None\<rparr>,
        w\<lparr>calls := calls w @ [CheckSystemRequirements, GetDevices]\<rparr>)"
  by (simp add: NgxAgoraService_def checkSystemRequirements_def collectDevices_def)

text \<open>
  C5. When the compatibility check answers false, the constructor returns the service
  with both device caches unset; beyond the check itself its only call on the provider
  is the logger's \<open>error\<close>, so no device enumeration is requested, and nothing is thrown.
\<close>

theorem NgxAgoraService_unsupported:
  assumes "\<not> rtc_checkSystemRequirements rtc"
  shows "NgxAgoraService rtc cfg w =
           (\<lparr>config = cfg, client = None, audioDevices = None, videoDevices = None\<rparr>,
            w\<lparr>calls := calls w @
               [CheckSystemRequirements, LoggerError ''Web RTC is not supported in this browser'']\<rparr>)
         \<and> GetDevices \<notin> set (drop (length (calls w)) (calls (snd (NgxAgoraService rtc cfg w))))"
  using assms
  by (simp add: NgxAgoraService_def checkSystemRequirements_def)

theorem NgxAgoraService_unsupported_witness:
  "\<not> rtc_checkSystemRequirements rtc_unsupported
   \<and> NgxAgoraService rtc_unsupported \<lparr>AppID = ''app-id''\<rparr> (world_of spec_av) =
       (svc_fresh, (world_of spec_av)\<lparr>calls :=
          [CheckSystemRequirements, LoggerError ''Web RTC is not supported in this browser'']\<rparr>)"
proof -
  have h: "\<not> rtc_checkSystemRequirements rtc_unsupported"
    by (simp add: rtc_unsupported_def)
  show ?thesis
    using h NgxAgoraService_unsupported [OF h, of "\<lparr>AppID = ''app-id''\<rparr>" "world_of spec_av"]
    by (simp add: svc_fresh_def world_of_def)
qed

text \<open>
  C10. \<open>createClient\<close> stores the client object the provider created in the service's
  client field, and the very next call after the provider's \<open>createClient\<close> is that
  client's \<open>init\<close> with the AppID of the configuration the service was constructed
  with (also after a device enumeration has come in) and with neither callback; a later
  \<open>createClient\<close> puts its own client in the place of the stored one.
\<close>

theorem createClient_init:
  "client (fst (createClient rtc cc this w)) = Some (rtc_createClient rtc cc)
   \<and> calls (snd (createClient rtc cc this w)) =
       calls w @ [CreateClient cc, ClientInit (rtc_createClient rtc cc) (AppID (config this)) None None]
   \<and> calls (snd (createClient rtc cc (fst (NgxAgoraService rtc0 cfg w0)) w)) =
       calls w @ [CreateClient cc, ClientInit (rtc_createClient rtc cc) (AppID cfg) None None]
   \<and> calls (snd (createClient rtc cc
        (collectDevices_callback devices (fst (NgxAgoraService rtc0 cfg w0))) w)) =
       calls w @ [CreateClient cc, ClientInit (rtc_createClient rtc cc) (AppID cfg) None None]
   \<and> config (fst (createClient rtc cc this w)) = config this
   \<and> client (fst (createClient rtc' cc' (fst (createClient rtc cc this w))
        (snd (createClient rtc cc this w)))) = Some (rtc_createClient rtc' cc')
   \<and> calls (snd (createClient rtc' cc' (fst (createClient rtc cc this w))
        (snd (createClient rtc cc this w)))) =
       calls w @ [CreateClient cc, ClientInit (rtc_createClient rtc cc) (AppID (config this)) None None,
                  CreateClient cc', ClientInit (rtc_createClient rtc' cc') (AppID (config this)) None None]"
  by (simp add: createClient_def Let_def NgxAgoraService_def checkSystemRequirements_def
        collectDevices_callback_def)

end
